theory Spec2Isabelle
  imports Complex_Main
begin

section \<open>Data model\<close>

text \<open>
  The program is a small class hierarchy (\<^verbatim>\<open>Employee\<close>, its subclasses \<^verbatim>\<open>Manager\<close> and
  \<^verbatim>\<open>SalesPerson\<close>, and \<^verbatim>\<open>Company\<close>) whose objects refer to each other: a manager's and a
  company's \<^verbatim>\<open>employees\<close> list hold references to employee objects, and membership in these
  lists is decided by \<^verbatim>\<open>==\<close>, which for these classes is object identity. Objects therefore
  live in a heap and are named by references.

  Numbers: ids are Python ints (\<open>int\<close>). Salaries, raise amounts and commission rates are
  modelled as exact rationals, which cover the ints of the example run; the rounding of
  binary floating point is not part of the model.
\<close>

type_synonym ref = nat

text \<open>The fields a subclass adds to the ones of \<^verbatim>\<open>Employee\<close>.\<close>

datatype variant =
    Plain
  | Manager (department: string) (employees: "ref list")
  | SalesPerson (commission_rate: rat) (sales_achieved: rat)

record employee =
  employee_id :: int
  name :: string
  salary :: rat
  variant :: variant

record company =
  company_name :: string
  company_employees :: "ref list"

text \<open>
  \<open>Other_obj\<close> stands for any Python value that is an instance of none of the four classes;
  it has none of their attributes.
\<close>

datatype obj = Employee_obj employee | Company_obj company | Other_obj

text \<open>
  Each \<^verbatim>\<open>print\<close> of the source appends one message to the output. A message keeps the
  values the f-string interpolates; the rendering of numbers with two decimals is left out.
\<close>

datatype message =
    Details int string rat
  | Raise_given rat string rat
  | Invalid_raise string
  | Added_report string string
  | Invalid_report string
  | Removed_report string string
  | Not_a_report string string
  | Department string
  | Direct_reports
  | Report_name string
  | No_direct_reports
  | Commission_details rat rat
  | Commission_increased rat
  | Added_to_company string string
  | Invalid_company_employee string
  | Removed_from_company string string
  | Not_in_company string string
  | All_employees string
  | Footer

record state =
  heap :: "obj list"
  out :: "message list"

datatype error = AttributeError | TypeError

text \<open>
  A method either returns or raises. A raised exception keeps the state reached so far,
  since Python does not undo the mutations made before the \<^verbatim>\<open>raise\<close>.
\<close>

datatype outcome = Done state | Raised error state

fun state_of :: "outcome \<Rightarrow> state" where
  "state_of (Done s) = s"
| "state_of (Raised e s) = s"

fun returns :: "outcome \<Rightarrow> bool" where
  "returns (Done s) = True"
| "returns (Raised e s) = False"

fun then_do :: "outcome \<Rightarrow> (state \<Rightarrow> outcome) \<Rightarrow> outcome" where
  "then_do (Done s) f = f s"
| "then_do (Raised e s) f = Raised e s"

definition lookup :: "state \<Rightarrow> ref \<Rightarrow> obj option" where
  "lookup s r = (if r < length (heap s) then Some (heap s ! r) else None)"

definition put :: "ref \<Rightarrow> obj \<Rightarrow> state \<Rightarrow> state" where
  "put r ob s = s\<lparr>heap := (heap s)[r := ob]\<rparr>"

definition print :: "message \<Rightarrow> state \<Rightarrow> state" where
  "print m s = s\<lparr>out := out s @ [m]\<rparr>"

text \<open>Object creation: the new object gets a reference no existing object has.\<close>

definition new :: "obj \<Rightarrow> state \<Rightarrow> ref \<times> state" where
  "new ob s = (length (heap s), s\<lparr>heap := heap s @ [ob]\<rparr>)"

text \<open>\<^verbatim>\<open>isinstance(x, Employee)\<close>, with the object's fields when it holds.\<close>

definition get_employee :: "state \<Rightarrow> ref \<Rightarrow> employee option" where
  "get_employee s r = (case lookup s r of Some (Employee_obj e) \<Rightarrow> Some e | _ \<Rightarrow> None)"

definition get_company :: "state \<Rightarrow> ref \<Rightarrow> company option" where
  "get_company s r = (case lookup s r of Some (Company_obj c) \<Rightarrow> Some c | _ \<Rightarrow> None)"

text \<open>The attribute \<^verbatim>\<open>x.name\<close>: employees and companies have one.\<close>

definition name_of :: "state \<Rightarrow> ref \<Rightarrow> string option" where
  "name_of s r = (case lookup s r of
       Some (Employee_obj e) \<Rightarrow> Some (name e)
     | Some (Company_obj c) \<Rightarrow> Some (company_name c)
     | _ \<Rightarrow> None)"

text \<open>Instances of \<^verbatim>\<open>Manager\<close> and of \<^verbatim>\<open>SalesPerson\<close>, with the fields the subclass adds.\<close>

definition get_manager :: "state \<Rightarrow> ref \<Rightarrow> (employee \<times> string \<times> ref list) option" where
  "get_manager s r = (case get_employee s r of
       Some e \<Rightarrow> (case variant e of Manager d rs \<Rightarrow> Some (e, d, rs) | _ \<Rightarrow> None)
     | None \<Rightarrow> None)"

definition get_salesperson :: "state \<Rightarrow> ref \<Rightarrow> (employee \<times> rat \<times> rat) option" where
  "get_salesperson s r = (case get_employee s r of
       Some e \<Rightarrow> (case variant e of SalesPerson c a \<Rightarrow> Some (e, c, a) | _ \<Rightarrow> None)
     | None \<Rightarrow> None)"

section \<open>Constructors\<close>

definition Employee_init :: "int \<Rightarrow> string \<Rightarrow> rat \<Rightarrow> state \<Rightarrow> ref \<times> state" where
  "Employee_init i n sal s =
     new (Employee_obj \<lparr>employee_id = i, name = n, salary = sal, variant = Plain\<rparr>) s"

definition Manager_init :: "int \<Rightarrow> string \<Rightarrow> rat \<Rightarrow> string \<Rightarrow> state \<Rightarrow> ref \<times> state" where
  "Manager_init i n sal d s =
     new (Employee_obj \<lparr>employee_id = i, name = n, salary = sal, variant = Manager d []\<rparr>) s"

definition SalesPerson_init :: "int \<Rightarrow> string \<Rightarrow> rat \<Rightarrow> rat \<Rightarrow> state \<Rightarrow> ref \<times> state" where
  "SalesPerson_init i n sal c s =
     new (Employee_obj \<lparr>employee_id = i, name = n, salary = sal, variant = SalesPerson c 0\<rparr>) s"

definition Company_init :: "string \<Rightarrow> state \<Rightarrow> ref \<times> state" where
  "Company_init n s = new (Company_obj \<lparr>company_name = n, company_employees = []\<rparr>) s"

section \<open>Class Employee\<close>

text \<open>
  A method takes the reference \<open>self\<close>. Calling it on an object that is not an instance of
  the class raises \<^verbatim>\<open>AttributeError\<close>, as the attribute lookup would.
\<close>

definition get_employee_id :: "ref \<Rightarrow> state \<Rightarrow> error + int" where
  "get_employee_id self s = (case get_employee s self of
       Some e \<Rightarrow> Inr (employee_id e)
     | None \<Rightarrow> Inl AttributeError)"

definition Employee_display_details :: "ref \<Rightarrow> state \<Rightarrow> outcome" where
  "Employee_display_details self s = (case get_employee s self of
       Some e \<Rightarrow> Done (print (Details (employee_id e) (name e) (salary e)) s)
     | None \<Rightarrow> Raised AttributeError s)"

definition Employee_give_raise :: "ref \<Rightarrow> rat \<Rightarrow> state \<Rightarrow> outcome" where
  "Employee_give_raise self amount s = (case get_employee s self of
       Some e \<Rightarrow>
         if amount > 0 then
           Done (print (Raise_given amount (name e) (salary e + amount))
                  (put self (Employee_obj (e\<lparr>salary := salary e + amount\<rparr>)) s))
         else Done (print (Invalid_raise (name e)) s)
     | None \<Rightarrow> Raised AttributeError s)"

section \<open>Class SalesPerson\<close>

definition calculate_commission :: "ref \<Rightarrow> state \<Rightarrow> error + rat" where
  "calculate_commission self s = (case get_salesperson s self of
       Some (e, c, a) \<Rightarrow> Inr (c * a)
     | None \<Rightarrow> Inl AttributeError)"

definition SalesPerson_display_details :: "ref \<Rightarrow> state \<Rightarrow> outcome" where
  "SalesPerson_display_details self s =
     then_do (Employee_display_details self s) (\<lambda>s1.
       case get_salesperson s1 self of
         Some (e, c, a) \<Rightarrow> Done (print (Commission_details c a) s1)
       | None \<Rightarrow> Raised AttributeError s1)"

definition SalesPerson_give_raise :: "ref \<Rightarrow> rat \<Rightarrow> state \<Rightarrow> outcome" where
  "SalesPerson_give_raise self amount s =
     then_do (Employee_give_raise self amount s) (\<lambda>s1.
       case get_salesperson s1 self of
         Some (e, c, a) \<Rightarrow>
           Done (print (Commission_increased (c + 1 / 100))
                  (put self (Employee_obj (e\<lparr>variant := SalesPerson (c + 1 / 100) a\<rparr>)) s1))
       | None \<Rightarrow> Raised AttributeError s1)"

section \<open>Class Manager\<close>

definition Manager_add_employee :: "ref \<Rightarrow> ref \<Rightarrow> state \<Rightarrow> outcome" where
  "Manager_add_employee self employee s = (case get_manager s self of
       Some (m, d, rs) \<Rightarrow>
         (case get_employee s employee of
            Some e \<Rightarrow>
              Done (print (Added_report (name e) (name m))
                     (put self (Employee_obj (m\<lparr>variant := Manager d (rs @ [employee])\<rparr>)) s))
          | None \<Rightarrow> Done (print (Invalid_report (name m)) s))
     | None \<Rightarrow> Raised AttributeError s)"

text \<open>
  \<^verbatim>\<open>list.remove\<close> deletes the first element equal to its argument, which is what
  \<^const>\<open>remove1\<close> does. Both branches read \<^verbatim>\<open>employee.name\<close> for the message, the first one
  after the list has been changed.
\<close>

definition Manager_remove_employee :: "ref \<Rightarrow> ref \<Rightarrow> state \<Rightarrow> outcome" where
  "Manager_remove_employee self employee s = (case get_manager s self of
       Some (m, d, rs) \<Rightarrow>
         if employee \<in> set rs then
           (let s1 = put self (Employee_obj (m\<lparr>variant := Manager d (remove1 employee rs)\<rparr>)) s
            in case name_of s1 employee of
                 Some n \<Rightarrow> Done (print (Removed_report n (name m)) s1)
               | None \<Rightarrow> Raised AttributeError s1)
         else
           (case name_of s employee of
              Some n \<Rightarrow> Done (print (Not_a_report n (name m)) s)
            | None \<Rightarrow> Raised AttributeError s)
     | None \<Rightarrow> Raised AttributeError s)"

text \<open>The loop \<^verbatim>\<open>for employee in self.employees: print(f"- {employee.name}")\<close>.\<close>

fun print_report_names :: "ref list \<Rightarrow> state \<Rightarrow> outcome" where
  "print_report_names [] s = Done s"
| "print_report_names (r # rs) s = (case name_of s r of
       Some n \<Rightarrow> print_report_names rs (print (Report_name n) s)
     | None \<Rightarrow> Raised AttributeError s)"

definition Manager_display_details :: "ref \<Rightarrow> state \<Rightarrow> outcome" where
  "Manager_display_details self s =
     then_do (Employee_display_details self s) (\<lambda>s1.
       case get_manager s1 self of
         Some (m, d, rs) \<Rightarrow>
           (let s2 = print (Department d) s1
            in if rs \<noteq> [] then print_report_names rs (print Direct_reports s2)
               else Done (print No_direct_reports s2))
       | None \<Rightarrow> Raised AttributeError s1)"

text \<open>
  \<^verbatim>\<open>Manager.give_raise\<close> calls \<^verbatim>\<open>employee.give_raise(amount)\<close> on every report, which
  dispatches on the report's class (\<open>give_raise\<close> below); a report that is a manager runs
  \<^verbatim>\<open>Manager.give_raise\<close> again, with \<^verbatim>\<open>include_reports\<close> at its default \<^verbatim>\<open>False\<close>. The three
  functions are therefore mutually recursive.
\<close>

function Manager_give_raise :: "ref \<Rightarrow> rat \<Rightarrow> bool \<Rightarrow> state \<Rightarrow> outcome"
  and give_raise_each :: "ref list \<Rightarrow> rat \<Rightarrow> state \<Rightarrow> outcome"
  and give_raise :: "ref \<Rightarrow> rat \<Rightarrow> state \<Rightarrow> outcome"
where
  "Manager_give_raise self amount include_reports s =
     (case Employee_give_raise self amount s of
        Done s1 \<Rightarrow>
          if include_reports then
            (case get_manager s1 self of
               Some (m, d, rs) \<Rightarrow> give_raise_each rs amount s1
             | None \<Rightarrow> Raised AttributeError s1)
          else Done s1
      | Raised e s1 \<Rightarrow> Raised e s1)"
| "give_raise_each [] amount s = Done s"
| "give_raise_each (r # rs) amount s =
     (case give_raise r amount s of
        Done s1 \<Rightarrow> give_raise_each rs amount s1
      | Raised e s1 \<Rightarrow> Raised e s1)"
| "give_raise self amount s =
     (case get_employee s self of
        Some e \<Rightarrow>
          (case variant e of
             Plain \<Rightarrow> Employee_give_raise self amount s
           | Manager d rs \<Rightarrow> Manager_give_raise self amount False s
           | SalesPerson c a \<Rightarrow> SalesPerson_give_raise self amount s)
      | None \<Rightarrow> Raised AttributeError s)"
  by pat_completeness auto
termination
  by (relation "measures
        [\<lambda>x. case x of
                Inl (self, amount, include_reports, s) \<Rightarrow> if include_reports then 3 else 0
              | Inr (Inl (rs, amount, s)) \<Rightarrow> 2
              | Inr (Inr (self, amount, s)) \<Rightarrow> 1,
         \<lambda>x. case x of
                Inr (Inl (rs, amount, s)) \<Rightarrow> length rs
              | _ \<Rightarrow> 0]") auto

declare Manager_give_raise.simps [simp del] give_raise.simps [simp del]

section \<open>Dynamic dispatch of \<^verbatim>\<open>display_details\<close>\<close>

definition display_details :: "ref \<Rightarrow> state \<Rightarrow> outcome" where
  "display_details self s = (case get_employee s self of
       Some e \<Rightarrow>
         (case variant e of
            Plain \<Rightarrow> Employee_display_details self s
          | Manager d rs \<Rightarrow> Manager_display_details self s
          | SalesPerson c a \<Rightarrow> SalesPerson_display_details self s)
     | None \<Rightarrow> Raised AttributeError s)"

section \<open>Class Company\<close>

definition Company_add_employee :: "ref \<Rightarrow> ref \<Rightarrow> state \<Rightarrow> outcome" where
  "Company_add_employee self employee s = (case get_company s self of
       Some c \<Rightarrow>
         (case get_employee s employee of
            Some e \<Rightarrow>
              Done (print (Added_to_company (name e) (company_name c))
                     (put self (Company_obj
                        (c\<lparr>company_employees := company_employees c @ [employee]\<rparr>)) s))
          | None \<Rightarrow> Done (print (Invalid_company_employee (company_name c)) s))
     | None \<Rightarrow> Raised AttributeError s)"

definition Company_remove_employee :: "ref \<Rightarrow> ref \<Rightarrow> state \<Rightarrow> outcome" where
  "Company_remove_employee self employee s = (case get_company s self of
       Some c \<Rightarrow>
         if employee \<in> set (company_employees c) then
           (let s1 = put self (Company_obj
                       (c\<lparr>company_employees := remove1 employee (company_employees c)\<rparr>)) s
            in case name_of s1 employee of
                 Some n \<Rightarrow> Done (print (Removed_from_company n (company_name c)) s1)
               | None \<Rightarrow> Raised AttributeError s1)
         else
           (case name_of s employee of
              Some n \<Rightarrow> Done (print (Not_in_company n (company_name c)) s)
            | None \<Rightarrow> Raised AttributeError s)
     | None \<Rightarrow> Raised AttributeError s)"

fun display_each :: "ref list \<Rightarrow> state \<Rightarrow> outcome" where
  "display_each [] s = Done s"
| "display_each (r # rs) s = then_do (display_details r s) (display_each rs)"

definition display_all_employees :: "ref \<Rightarrow> state \<Rightarrow> outcome" where
  "display_all_employees self s = (case get_company s self of
       Some c \<Rightarrow>
         then_do (display_each (company_employees c) (print (All_employees (company_name c)) s))
           (\<lambda>s1. Done (print Footer s1))
     | None \<Rightarrow> Raised AttributeError s)"

text \<open>
  The loop of \<^verbatim>\<open>get_employee_by_id\<close>: the first employee whose id matches is returned,
  \<^verbatim>\<open>None\<close> when the list is exhausted.
\<close>

fun find_by_id :: "state \<Rightarrow> int \<Rightarrow> ref list \<Rightarrow> error + ref option" where
  "find_by_id s i [] = Inr None"
| "find_by_id s i (r # rs) = (case get_employee_id r s of
       Inl e \<Rightarrow> Inl e
     | Inr j \<Rightarrow> if j = i then Inr (Some r) else find_by_id s i rs)"

definition get_employee_by_id :: "ref \<Rightarrow> int \<Rightarrow> state \<Rightarrow> error + ref option" where
  "get_employee_by_id self i s = (case get_company s self of
       Some c \<Rightarrow> find_by_id s i (company_employees c)
     | None \<Rightarrow> Inl AttributeError)"

text \<open>The loop of \<^verbatim>\<open>calculate_total_salary\<close>, with the running total as accumulator.\<close>

fun add_salaries :: "state \<Rightarrow> ref list \<Rightarrow> rat \<Rightarrow> error + rat" where
  "add_salaries s [] total_salary = Inr total_salary"
| "add_salaries s (r # rs) total_salary = (case get_employee s r of
       Some e \<Rightarrow> add_salaries s rs (total_salary + salary e)
     | None \<Rightarrow> Inl AttributeError)"

definition calculate_total_salary :: "ref \<Rightarrow> state \<Rightarrow> error + rat" where
  "calculate_total_salary self s = (case get_company s self of
       Some c \<Rightarrow> add_salaries s (company_employees c) 0
     | None \<Rightarrow> Inl AttributeError)"

section \<open>Dynamic dispatch of \<^verbatim>\<open>add_employee\<close> and \<^verbatim>\<open>remove_employee\<close>\<close>

definition add_employee :: "ref \<Rightarrow> ref \<Rightarrow> state \<Rightarrow> outcome" where
  "add_employee self employee s = (case lookup s self of
       Some (Company_obj c) \<Rightarrow> Company_add_employee self employee s
     | Some (Employee_obj e) \<Rightarrow>
         (case variant e of
            Manager d rs \<Rightarrow> Manager_add_employee self employee s
          | _ \<Rightarrow> Raised AttributeError s)
     | _ \<Rightarrow> Raised AttributeError s)"

definition remove_employee :: "ref \<Rightarrow> ref \<Rightarrow> state \<Rightarrow> outcome" where
  "remove_employee self employee s = (case lookup s self of
       Some (Company_obj c) \<Rightarrow> Company_remove_employee self employee s
     | Some (Employee_obj e) \<Rightarrow>
         (case variant e of
            Manager d rs \<Rightarrow> Manager_remove_employee self employee s
          | _ \<Rightarrow> Raised AttributeError s)
     | _ \<Rightarrow> Raised AttributeError s)"

section \<open>Programs over the classes\<close>

text \<open>
  A client program is a sequence of constructor and method calls on the objects of a
  state, as the example run at the end of the source is. References are the positions the
  constructors return. \<open>Call_give_raise_reports\<close> is the call
  \<^verbatim>\<open>x.give_raise(amount, include_reports=b)\<close>, which only the method of \<^verbatim>\<open>Manager\<close>
  accepts.
\<close>

datatype op =
    New_Employee int string rat
  | New_Manager int string rat string
  | New_SalesPerson int string rat rat
  | New_Company string
  | Call_get_employee_id ref
  | Call_display_details ref
  | Call_give_raise ref rat
  | Call_give_raise_reports ref rat bool
  | Call_calculate_commission ref
  | Call_add_employee ref ref
  | Call_remove_employee ref ref
  | Call_display_all_employees ref
  | Call_get_employee_by_id ref int
  | Call_calculate_total_salary ref

text \<open>A call whose result is discarded: only a raised exception is kept.\<close>

definition discard :: "error + 'a \<Rightarrow> state \<Rightarrow> outcome" where
  "discard res s = (case res of Inl e \<Rightarrow> Raised e s | Inr v \<Rightarrow> Done s)"

fun exec :: "op \<Rightarrow> state \<Rightarrow> outcome" where
  "exec (New_Employee i n sal) s = Done (snd (Employee_init i n sal s))"
| "exec (New_Manager i n sal d) s = Done (snd (Manager_init i n sal d s))"
| "exec (New_SalesPerson i n sal c) s = Done (snd (SalesPerson_init i n sal c s))"
| "exec (New_Company n) s = Done (snd (Company_init n s))"
| "exec (Call_get_employee_id r) s = discard (get_employee_id r s) s"
| "exec (Call_display_details r) s = display_details r s"
| "exec (Call_give_raise r amount) s = give_raise r amount s"
| "exec (Call_give_raise_reports r amount b) s = (case get_employee s r of
       Some e \<Rightarrow>
         (case variant e of
            Manager d rs \<Rightarrow> Manager_give_raise r amount b s
          | _ \<Rightarrow> Raised TypeError s)
     | None \<Rightarrow> Raised AttributeError s)"
| "exec (Call_calculate_commission r) s = discard (calculate_commission r s) s"
| "exec (Call_add_employee x r) s = add_employee x r s"
| "exec (Call_remove_employee x r) s = remove_employee x r s"
| "exec (Call_display_all_employees c) s = display_all_employees c s"
| "exec (Call_get_employee_by_id c i) s = discard (get_employee_by_id c i s) s"
| "exec (Call_calculate_total_salary c) s = discard (calculate_total_salary c s) s"

text \<open>A program stops at the first exception.\<close>

fun run :: "op list \<Rightarrow> state \<Rightarrow> outcome" where
  "run [] s = Done s"
| "run (c # cs) s = then_do (exec c s) (run cs)"

definition empty_state :: state where
  "empty_state = \<lparr>heap = [], out = []\<rparr>"



text \<open>The attribute \<^verbatim>\<open>x.employees\<close>, which managers and companies have.\<close>

definition employees_of :: "state \<Rightarrow> ref \<Rightarrow> ref list option" where
  "employees_of s x = (case lookup s x of
       Some (Employee_obj e) \<Rightarrow> (case variant e of Manager d rs \<Rightarrow> Some rs | _ \<Rightarrow> None)
     | Some (Company_obj c) \<Rightarrow> Some (company_employees c)
     | _ \<Rightarrow> None)"

section \<open>The example of the source\<close>

text \<open>
  The objects the example run creates and how it wires them: two employees, a manager, a
  salesperson and a company holding all four, the manager having the first employee and
  the salesperson as direct reports.
\<close>

definition acme_setup :: "op list" where
  "acme_setup =
     [New_Employee 101 ''Alice Smith'' 50000,
      New_Employee 102 ''Bob Johnson'' 60000,
      New_Manager 201 ''Charlie Brown'' 80000 ''Sales'',
      New_SalesPerson 301 ''David Miller'' 40000 (1 / 10),
      New_Company ''Acme Corp'',
      Call_add_employee 4 0, Call_add_employee 4 1,
      Call_add_employee 4 2, Call_add_employee 4 3,
      Call_add_employee 2 0, Call_add_employee 2 3]"

definition acme :: state where
  "acme = state_of (run acme_setup empty_state)"

text \<open>The same state after one more employee has been created, who is in no list yet.\<close>

definition acme_hire :: state where
  "acme_hire = state_of (exec (New_Employee 103 ''Carol White'' 45000) acme)"


text \<open>
  The example state after a second employee with the id 102 has been created and added to
  the company.
\<close>

definition acme_twin :: state where
  "acme_twin =
     state_of (run [New_Employee 102 ''Bob Twin'' 30000, Call_add_employee 4 5] acme)"



section \<open>Notions used to state the effects\<close>

text \<open>
  \<open>raised amount e\<close> are the fields of an employee object after one call of its own
  \<^verbatim>\<open>give_raise(amount)\<close>, and \<open>same_but s r e s'\<close> says that \<open>s'\<close> differs from \<open>s\<close> in the
  fields of the employee at \<open>r\<close> at most, which are \<open>e\<close> in \<open>s'\<close>.
\<close>

definition raised :: "rat \<Rightarrow> employee \<Rightarrow> employee" where
  "raised amount e =
     e\<lparr>salary := (if amount > 0 then salary e + amount else salary e),
       variant := (case variant e of
                     SalesPerson c a \<Rightarrow> SalesPerson (c + 1 / 100) a
                   | v \<Rightarrow> v)\<rparr>"


text \<open>\<open>with_employees rs ob\<close> is the object \<open>ob\<close> with \<open>rs\<close> as its \<^verbatim>\<open>employees\<close> list.\<close>

fun with_employees :: "ref list \<Rightarrow> obj \<Rightarrow> obj" where
  "with_employees rs (Employee_obj e) =
     Employee_obj (e\<lparr>variant := (case variant e of Manager d old \<Rightarrow> Manager d rs | v \<Rightarrow> v)\<rparr>)"
| "with_employees rs (Company_obj c) = Company_obj (c\<lparr>company_employees := rs\<rparr>)"
| "with_employees rs Other_obj = Other_obj"

text \<open>\<open>ids_kept s s'\<close>: every employee object of \<open>s\<close> is one of \<open>s'\<close>, with the same id.\<close>

definition ids_kept :: "state \<Rightarrow> state \<Rightarrow> bool" where
  "ids_kept s s' \<longleftrightarrow>
     (\<forall>r e. get_employee s r = Some e \<longrightarrow>
        (\<exists>e'. get_employee s' r = Some e' \<and> employee_id e' = employee_id e))"

section \<open>Reading the heap after a write\<close>

lemma lookup_print [simp]: "lookup (print m s) r = lookup s r"
  by (simp add: lookup_def print_def)

lemma lookup_put: "lookup (put r ob s) r' = (if r' = r \<and> r < length (heap s) then Some ob else lookup s r')"
  by (simp add: lookup_def put_def)

lemma lookup_Some_less: "lookup s r = Some ob \<Longrightarrow> r < length (heap s)"
  by (simp add: lookup_def split: if_splits)

lemma get_employee_less: "get_employee s r = Some e \<Longrightarrow> r < length (heap s)"
  by (auto simp: get_employee_def dest: lookup_Some_less split: option.splits obj.splits)

lemma get_employee_print [simp]: "get_employee (print m s) r = get_employee s r"
  by (simp add: get_employee_def)

lemma get_company_print [simp]: "get_company (print m s) r = get_company s r"
  by (simp add: get_company_def)

lemma name_of_print [simp]: "name_of (print m s) r = name_of s r"
  by (simp add: name_of_def)





lemma heap_print [simp]: "heap (print m s) = heap s"
  by (simp add: print_def)

lemma length_heap_put [simp]: "length (heap (put r ob s)) = length (heap s)"
  by (simp add: put_def)

lemma Employee_give_raise_Done:
  "get_employee s r = Some e \<Longrightarrow>
   Employee_give_raise r amount s =
     Done (if amount > 0
           then print (Raise_given amount (name e) (salary e + amount))
                  (put r (Employee_obj (e\<lparr>salary := salary e + amount\<rparr>)) s)
           else print (Invalid_raise (name e)) s)"
  by (simp add: Employee_give_raise_def)







lemma salary_raised [simp]:
  "salary (raised amount e) = (if amount > 0 then salary e + amount else salary e)"
  by (simp add: raised_def)

section \<open>No method changes an id\<close>

lemma ids_kept_refl [simp]: "ids_kept s s"
  by (simp add: ids_kept_def)

lemma ids_kept_trans: "ids_kept s s1 \<Longrightarrow> ids_kept s1 s2 \<Longrightarrow> ids_kept s s2"
  unfolding ids_kept_def by fastforce

lemma ids_kept_print [simp]: "ids_kept s (print m s)"
  by (simp add: ids_kept_def)

lemma ids_kept_print_right: "ids_kept s s' \<Longrightarrow> ids_kept s (print m s')"
  by (simp add: ids_kept_def)

lemma get_employee_put:
  "get_employee (put r ob s) r' =
     (if r' = r \<and> r < length (heap s)
      then (case ob of Employee_obj e \<Rightarrow> Some e | _ \<Rightarrow> None)
      else get_employee s r')"
  by (simp add: get_employee_def lookup_put)

lemma ids_kept_put_employee:
  "get_employee s r = Some e \<Longrightarrow> employee_id e' = employee_id e \<Longrightarrow>
   ids_kept s (put r (Employee_obj e') s)"
  by (auto simp: ids_kept_def get_employee_put)

lemma ids_kept_put_company:
  "get_company s r = Some c \<Longrightarrow> ids_kept s (put r (Company_obj c') s)"
  by (auto simp: ids_kept_def get_company_def get_employee_def lookup_put
      split: option.splits obj.splits if_splits)

lemma get_employee_new:
  "get_employee (snd (new ob s)) r =
     (if r = length (heap s) then (case ob of Employee_obj e \<Rightarrow> Some e | _ \<Rightarrow> None)
      else get_employee s r)"
  by (auto simp: get_employee_def lookup_def new_def nth_append split: obj.splits)

lemma ids_kept_new [simp]: "ids_kept s (snd (new ob s))"
  by (auto simp: ids_kept_def get_employee_new dest: get_employee_less)

lemma get_manager_SomeD:
  "get_manager s r = Some (m, d, rs) \<Longrightarrow> get_employee s r = Some m \<and> variant m = Manager d rs"
  by (auto simp: get_manager_def split: option.splits variant.splits)

lemma get_salesperson_SomeD:
  "get_salesperson s r = Some (e, c, a) \<Longrightarrow> get_employee s r = Some e \<and> variant e = SalesPerson c a"
  by (auto simp: get_salesperson_def split: option.splits variant.splits)

lemma ids_kept_Employee_give_raise [simp]:
  "ids_kept s (state_of (Employee_give_raise r amount s))"
  by (auto simp: Employee_give_raise_def ids_kept_print_right ids_kept_put_employee
      split: option.splits)

lemma ids_kept_SalesPerson_give_raise [simp]:
  "ids_kept s (state_of (SalesPerson_give_raise r amount s))"
proof (cases "Employee_give_raise r amount s")
  case (Done s1)
  have k: "ids_kept s s1"
    using ids_kept_Employee_give_raise [of s r amount] Done by simp
  show ?thesis
  proof (cases "get_salesperson s1 r")
    case None
    then show ?thesis using Done k by (simp add: SalesPerson_give_raise_def)
  next
    case (Some t)
    obtain e c a where t: "t = (e, c, a)" by (cases t)
    have "ids_kept s1 (put r (Employee_obj (e\<lparr>variant := SalesPerson (c + 1 / 100) a\<rparr>)) s1)"
      using get_salesperson_SomeD [OF Some [unfolded t]]
      by (intro ids_kept_put_employee [where e = e]) simp_all
    then show ?thesis
      using Done Some t k
      by (auto simp: SalesPerson_give_raise_def intro: ids_kept_trans ids_kept_print_right)
  qed
next
  case (Raised e s1)
  then show ?thesis
    using ids_kept_Employee_give_raise [of s r amount]
    by (simp add: SalesPerson_give_raise_def)
qed

lemma ids_kept_give_raise [simp]:
  "ids_kept s (state_of (give_raise r amount s))"
proof -
  have "ids_kept s (state_of (Manager_give_raise r amount False s))"
    using ids_kept_Employee_give_raise [of s r amount]
    by (cases "Employee_give_raise r amount s") (simp_all add: Manager_give_raise.simps)
  then show ?thesis
    by (simp add: give_raise.simps split: option.splits variant.splits)
qed

lemma ids_kept_give_raise_each [simp]:
  "ids_kept s (state_of (give_raise_each rs amount s))"
proof (induction rs arbitrary: s)
  case Nil
  show ?case by simp
next
  case (Cons r rs)
  show ?case
  proof (cases "give_raise r amount s")
    case (Done s1)
    have "ids_kept s s1" using ids_kept_give_raise [of s r amount] Done by simp
    then show ?thesis using Done Cons.IH [of s1] by (auto intro: ids_kept_trans)
  next
    case (Raised e s1)
    then show ?thesis using ids_kept_give_raise [of s r amount] by simp
  qed
qed

lemma ids_kept_Manager_give_raise [simp]:
  "ids_kept s (state_of (Manager_give_raise r amount b s))"
proof (cases "Employee_give_raise r amount s")
  case (Done s1)
  have k: "ids_kept s s1" using ids_kept_Employee_give_raise [of s r amount] Done by simp
  show ?thesis
    using Done k ids_kept_give_raise_each [of s1 _ amount]
    by (auto simp: Manager_give_raise.simps split: option.splits intro: ids_kept_trans)
next
  case (Raised e s1)
  then show ?thesis
    using ids_kept_Employee_give_raise [of s r amount] by (simp add: Manager_give_raise.simps)
qed

lemma heap_print_report_names [simp]: "heap (state_of (print_report_names rs s)) = heap s"
  by (induction rs arbitrary: s) (auto split: option.splits)

lemma heap_Employee_display_details [simp]:
  "heap (state_of (Employee_display_details r s)) = heap s"
  by (simp add: Employee_display_details_def split: option.splits)

lemma heap_then_do:
  "heap (state_of x) = h \<Longrightarrow> (\<And>s1. heap s1 = h \<Longrightarrow> heap (state_of (f s1)) = h) \<Longrightarrow>
   heap (state_of (then_do x f)) = h"
  by (cases x) auto

lemma heap_SalesPerson_display_details [simp]:
  "heap (state_of (SalesPerson_display_details r s)) = heap s"
  unfolding SalesPerson_display_details_def
  by (rule heap_then_do) (auto split: option.splits)

lemma heap_Manager_display_details [simp]:
  "heap (state_of (Manager_display_details r s)) = heap s"
  unfolding Manager_display_details_def
  by (rule heap_then_do) (auto split: option.splits simp: Let_def)

lemma heap_display_details [simp]: "heap (state_of (display_details r s)) = heap s"
  by (simp add: display_details_def split: option.splits variant.splits)

lemma heap_display_each [simp]: "heap (state_of (display_each rs s)) = heap s"
proof (induction rs arbitrary: s)
  case Nil
  show ?case by simp
next
  case (Cons r rs)
  show ?case
    by (simp, rule heap_then_do) (simp_all add: Cons.IH)
qed

lemma heap_display_all_employees [simp]:
  "heap (state_of (display_all_employees c s)) = heap s"
proof (cases "get_company s c")
  case None
  then show ?thesis by (simp add: display_all_employees_def)
next
  case (Some co)
  show ?thesis
    unfolding display_all_employees_def Some option.case
    by (rule heap_then_do) simp_all
qed

lemma ids_kept_same_heap: "heap s' = heap s \<Longrightarrow> ids_kept s s'"
  by (simp add: ids_kept_def get_employee_def lookup_def)

lemma ids_kept_discard [simp]: "ids_kept s (state_of (discard res s))"
  by (simp add: discard_def split: sum.splits)

lemma ids_kept_Manager_add_employee [simp]:
  "ids_kept s (state_of (Manager_add_employee x r s))"
  by (auto simp: Manager_add_employee_def split: option.splits
      dest!: get_manager_SomeD intro!: ids_kept_print_right ids_kept_put_employee)

lemma ids_kept_Manager_remove_employee [simp]:
  "ids_kept s (state_of (Manager_remove_employee x r s))"
  by (auto simp: Manager_remove_employee_def Let_def split: option.splits
      dest!: get_manager_SomeD intro!: ids_kept_print_right ids_kept_put_employee)

lemma ids_kept_Company_add_employee [simp]:
  "ids_kept s (state_of (Company_add_employee x r s))"
  by (auto simp: Company_add_employee_def split: option.splits
      intro!: ids_kept_print_right ids_kept_put_company)

lemma ids_kept_Company_remove_employee [simp]:
  "ids_kept s (state_of (Company_remove_employee x r s))"
  by (auto simp: Company_remove_employee_def Let_def split: option.splits
      intro!: ids_kept_print_right ids_kept_put_company)

lemma ids_kept_exec: "ids_kept s (state_of (exec c s))"
proof (cases c)
  case (Call_give_raise_reports r amount b)
  then show ?thesis by (simp split: option.splits variant.splits)
next
  case (Call_add_employee x r)
  then show ?thesis by (simp add: add_employee_def split: option.splits obj.splits variant.splits)
next
  case (Call_remove_employee x r)
  then show ?thesis by (simp add: remove_employee_def split: option.splits obj.splits variant.splits)
qed (simp_all add: ids_kept_same_heap Employee_init_def Manager_init_def SalesPerson_init_def
      Company_init_def)

lemma ids_kept_run: "ids_kept s (state_of (run cs s))"
proof (induction cs arbitrary: s)
  case Nil
  show ?case by simp
next
  case (Cons c cs)
  show ?case
  proof (cases "exec c s")
    case (Done s1)
    then show ?thesis
      using ids_kept_exec [of s c] Cons.IH [of s1] by (auto intro: ids_kept_trans)
  next
    case (Raised e s1)
    then show ?thesis using ids_kept_exec [of s c] by simp
  qed
qed

lemma get_employee_id_kept:
  "get_employee_id r s = Inr i \<Longrightarrow> ids_kept s s' \<Longrightarrow> get_employee_id r s' = Inr i"
  unfolding get_employee_id_def ids_kept_def by (fastforce split: option.splits)

lemma get_employee_id_new:
  "get_employee_id (fst (new (Employee_obj e) s)) (snd (new (Employee_obj e) s)) = Inr (employee_id e)"
  by (simp add: get_employee_id_def get_employee_new) (simp add: new_def)

text \<open>
  Claim C2. An employee, manager or salesperson constructed with id \<open>i\<close> answers
  \<^verbatim>\<open>get_employee_id()\<close> with \<open>i\<close> right after its construction (\<open>ops = []\<close>) and after any
  program of constructor and method calls run from there, whether the program runs to its
  end or stops at an exception.
\<close>

theorem employee_id_never_changes:
  "get_employee_id (fst (Employee_init i n sal s))
     (state_of (run ops (snd (Employee_init i n sal s)))) = Inr i \<and>
   get_employee_id (fst (Manager_init i n sal d s))
     (state_of (run ops (snd (Manager_init i n sal d s)))) = Inr i \<and>
   get_employee_id (fst (SalesPerson_init i n sal c s))
     (state_of (run ops (snd (SalesPerson_init i n sal c s)))) = Inr i"
  unfolding Employee_init_def Manager_init_def SalesPerson_init_def
  by (intro conjI get_employee_id_kept [OF _ ids_kept_run])
     (simp_all add: get_employee_id_new [THEN trans])

section \<open>Raises\<close>







section \<open>Adding to and removing from an \<^verbatim>\<open>employees\<close> list\<close>

lemma employees_of_print [simp]: "employees_of (print m s) x = employees_of s x"
  by (simp add: employees_of_def)

lemma out_put [simp]: "out (put r ob s) = out s"
  by (simp add: put_def)

lemma out_print [simp]: "out (print m s) = out s @ [m]"
  by (simp add: print_def)

lemma heap_put: "heap (put r ob s) = (heap s)[r := ob]"
  by (simp add: put_def)

lemma employees_of_less: "employees_of s x = Some rs \<Longrightarrow> x < length (heap s)"
  by (auto simp: employees_of_def dest: lookup_Some_less split: option.splits)

lemma employees_of_cases:
  assumes "employees_of s x = Some rs"
  obtains (Manager) m d where "lookup s x = Some (Employee_obj m)" "variant m = Manager d rs"
        "get_manager s x = Some (m, d, rs)"
    | (Company) c where "lookup s x = Some (Company_obj c)" "company_employees c = rs"
        "get_company s x = Some c"
  using assms
  by (auto simp: employees_of_def get_manager_def get_employee_def get_company_def
      split: option.splits obj.splits variant.splits)

lemma with_employees_twice [simp]:
  "with_employees rs (with_employees rs' ob) = with_employees rs ob"
  by (cases ob) (auto split: variant.splits)

lemma with_employees_same:
  "employees_of s x = Some rs \<Longrightarrow> with_employees rs (heap s ! x) = heap s ! x"
  by (auto simp: employees_of_def lookup_def split: option.splits obj.splits variant.splits if_splits)

lemma lookup_heap: "x < length (heap s) \<Longrightarrow> lookup s x = Some (heap s ! x)"
  by (simp add: lookup_def)

lemma lookup_None: "\<not> x < length (heap s) \<Longrightarrow> lookup s x = None"
  by (simp add: lookup_def)

lemma name_of_put_with_employees [simp]:
  "name_of (put x (with_employees rs (heap s ! x)) s) r = name_of s r"
proof (cases "r = x \<and> x < length (heap s)")
  case True
  then show ?thesis
    by (cases "heap s ! x") (simp_all add: name_of_def lookup_put lookup_heap)
next
  case False
  then show ?thesis by (auto simp: name_of_def lookup_put)
qed

lemma get_employee_put_with_employees:
  "y \<noteq> x \<Longrightarrow> get_employee (put x (with_employees rs (heap s ! x)) s) y = get_employee s y"
  by (simp add: get_employee_put)

lemma employees_of_put_with_employees:
  assumes "employees_of s x = Some rs0"
  shows "employees_of (put x (with_employees rs (heap s ! x)) s) y =
     (if y = x then Some rs else employees_of s y)"
proof (cases "y = x")
  case True
  have x: "x < length (heap s)" by (rule employees_of_less [OF assms])
  show ?thesis
    using assms True x
    by (cases "heap s ! x")
      (auto simp: employees_of_def lookup_put lookup_heap split: variant.splits)
next
  case False
  then show ?thesis by (simp add: employees_of_def lookup_put)
qed

lemma add_employee_effect:
  assumes "employees_of s x = Some rs" "get_employee s r = Some e"
  shows "\<exists>m. add_employee x r s =
           Done (print m (put x (with_employees (rs @ [r]) (heap s ! x)) s))"
  using assms(1)
proof (cases rule: employees_of_cases)
  case (Manager m d)
  then show ?thesis
    using assms(2)
    by (auto simp: add_employee_def Manager_add_employee_def lookup_def split: if_splits)
next
  case (Company c)
  then show ?thesis
    using assms(2)
    by (auto simp: add_employee_def Company_add_employee_def lookup_def split: if_splits)
qed

lemma add_employee_invalid:
  assumes "employees_of s x = Some rs" "get_employee s r = None"
  shows "\<exists>m. add_employee x r s = Done (print m s)"
  using assms(1)
proof (cases rule: employees_of_cases)
  case (Manager m d)
  then show ?thesis
    using assms(2) by (auto simp: add_employee_def Manager_add_employee_def)
next
  case (Company c)
  then show ?thesis
    using assms(2) by (auto simp: add_employee_def Company_add_employee_def)
qed

lemma remove_employee_effect:
  assumes "employees_of s x = Some rs" "name_of s r = Some n"
  shows "\<exists>m. remove_employee x r s =
           Done (print m (if r \<in> set rs
                          then put x (with_employees (remove1 r rs) (heap s ! x)) s else s))"
  using assms(1)
proof (cases rule: employees_of_cases)
  case (Manager m d)
  have "put x (Employee_obj (m\<lparr>variant := Manager d (remove1 r rs)\<rparr>)) s =
        put x (with_employees (remove1 r rs) (heap s ! x)) s"
    using Manager by (auto simp: lookup_def split: if_splits)
  then show ?thesis
    using assms(2) Manager
    by (auto simp: remove_employee_def Manager_remove_employee_def Let_def)
next
  case (Company c)
  have "put x (Company_obj (c\<lparr>company_employees := remove1 r rs\<rparr>)) s =
        put x (with_employees (remove1 r rs) (heap s ! x)) s"
    using Company by (auto simp: lookup_def split: if_splits)
  then show ?thesis
    using assms(2) Company
    by (auto simp: remove_employee_def Company_remove_employee_def Let_def)
qed

lemma get_employee_name_of: "get_employee s r = Some e \<Longrightarrow> name_of s r = Some (name e)"
  by (auto simp: get_employee_def name_of_def split: option.splits obj.splits)


lemma lookup_add_employee_other:
  "y \<noteq> x \<Longrightarrow> lookup (state_of (add_employee x r s)) y = lookup s y"
  by (auto simp: add_employee_def Manager_add_employee_def Company_add_employee_def lookup_put
      split: option.splits obj.splits variant.splits)

lemma lookup_remove_employee_other:
  "y \<noteq> x \<Longrightarrow> lookup (state_of (remove_employee x r s)) y = lookup s y"
  by (auto simp: remove_employee_def Manager_remove_employee_def Company_remove_employee_def
      lookup_put Let_def split: option.splits obj.splits variant.splits)

lemma employees_of_cong_lookup: "lookup s' y = lookup s y \<Longrightarrow> employees_of s' y = employees_of s y"
  by (simp add: employees_of_def)

lemma get_manager_employees_of:
  "get_manager s x = Some (m, d, rs) \<Longrightarrow> employees_of s x = Some rs"
  by (auto simp: get_manager_def get_employee_def employees_of_def
      split: option.splits obj.splits variant.splits)

lemma get_company_employees_of:
  "get_company s x = Some c \<Longrightarrow> employees_of s x = Some (company_employees c)"
  by (auto simp: get_company_def employees_of_def split: option.splits obj.splits)

lemma add_employee_Manager:
  "get_manager s x = Some (m, d, rs) \<Longrightarrow> add_employee x r s = Manager_add_employee x r s"
  by (auto simp: add_employee_def get_manager_def get_employee_def
      split: option.splits obj.splits variant.splits)

lemma remove_employee_Manager:
  "get_manager s x = Some (m, d, rs) \<Longrightarrow> remove_employee x r s = Manager_remove_employee x r s"
  by (auto simp: remove_employee_def get_manager_def get_employee_def
      split: option.splits obj.splits variant.splits)


lemma remove_employee_Company:
  "get_company s x = Some c \<Longrightarrow> remove_employee x r s = Company_remove_employee x r s"
  by (auto simp: remove_employee_def get_company_def split: option.splits obj.splits)

lemma remove1_append_absent: "r \<notin> set xs \<Longrightarrow> remove1 r (xs @ r # ys) = xs @ ys"
  by (induction xs) auto

lemma count_list_append_one:
  "count_list (rs @ [r]) r = 1 \<Longrightarrow> r \<notin> set rs"
  by (induction rs) (auto split: if_splits)

text \<open>
  Claim C4. For a manager and an employee object, \<^verbatim>\<open>add_employee\<close> followed by
  \<^verbatim>\<open>remove_employee\<close> of the same object returns both times and gives back the list of reports
  the manager had before, and indeed the whole heap, provided the object occurs exactly
  once in the list after the add.
\<close>

theorem add_then_remove_restores:
  fixes s :: state and x r :: ref
  defines "s1 \<equiv> state_of (Manager_add_employee x r s)"
  assumes "get_manager s x = Some (m, d, rs)" and "get_employee s r = Some e"
    and "employees_of s1 x = Some rs1" and "count_list rs1 r = 1"
  shows "returns (Manager_add_employee x r s) \<and>
         returns (Manager_remove_employee x r s1) \<and>
         employees_of (state_of (Manager_remove_employee x r s1)) x = Some rs \<and>
         heap (state_of (Manager_remove_employee x r s1)) = heap s"
proof -
  have xs: "employees_of s x = Some rs" by (rule get_manager_employees_of [OF assms(2)])
  have xl: "x < length (heap s)" by (rule employees_of_less [OF xs])
  obtain m1 where a: "Manager_add_employee x r s =
      Done (print m1 (put x (with_employees (rs @ [r]) (heap s ! x)) s))"
    using add_employee_effect [OF xs assms(3)] add_employee_Manager [OF assms(2)] by auto
  let ?s0 = "put x (with_employees (rs @ [r]) (heap s ! x)) s"
  have s1: "s1 = print m1 ?s0" by (simp add: s1_def a)
  have e1: "employees_of s1 x = Some (rs @ [r])"
    by (simp add: s1 employees_of_put_with_employees [OF xs])
  then have rs1: "rs1 = rs @ [r]" using assms(4) by simp
  have notin: "r \<notin> set rs" using assms(5) rs1 by (simp add: count_list_append_one)
  have n1: "name_of s1 r = Some (name e)"
    by (simp add: s1 get_employee_name_of [OF assms(3)])
  obtain m2 where b: "remove_employee x r s1 =
      Done (print m2 (put x (with_employees (remove1 r (rs @ [r])) (heap s1 ! x)) s1))"
    using remove_employee_effect [OF e1 n1] by auto
  have gm1: "\<exists>m' d'. get_manager s1 x = Some (m', d', rs @ [r])"
    using e1 assms(2) xl
    by (auto simp: s1 get_manager_def get_employee_put employees_of_def lookup_put lookup_heap
        get_employee_def split: option.splits obj.splits variant.splits)
  then have b': "Manager_remove_employee x r s1 =
      Done (print m2 (put x (with_employees (remove1 r (rs @ [r])) (heap s1 ! x)) s1))"
    using b remove_employee_Manager by auto
  have rm: "remove1 r (rs @ [r]) = rs" using notin by (simp add: remove1_append)
  have h1: "heap s1 ! x = with_employees (rs @ [r]) (heap s ! x)"
    using xl by (simp add: s1 heap_put)
  have hfin: "heap (put x (with_employees rs (heap s1 ! x)) s1) = heap s"
    using xl by (simp add: h1 heap_put s1 with_employees_same [OF xs])
  have efin: "employees_of (put x (with_employees rs (heap s1 ! x)) s1) x = Some rs"
    by (simp add: employees_of_put_with_employees [OF e1])
  show ?thesis
    using a b' rm hfin efin by simp
qed

theorem add_then_remove_restores_witness:
  "employees_of (state_of (Manager_add_employee 2 5 acme_hire)) 2 = Some [0, 3, 5] \<and>
   employees_of (state_of (Manager_remove_employee 2 5
      (state_of (Manager_add_employee 2 5 acme_hire)))) 2 = Some [0, 3] \<and>
   heap (state_of (Manager_remove_employee 2 5
      (state_of (Manager_add_employee 2 5 acme_hire)))) = heap acme_hire"
proof -
  have m: "get_manager acme_hire 2 =
      Some (\<lparr>employee_id = 201, name = ''Charlie Brown'', salary = 80000,
              variant = Manager ''Sales'' [0, 3]\<rparr>, ''Sales'', [0, 3])"
    by code_simp
  have e: "get_employee acme_hire 5 =
      Some \<lparr>employee_id = 103, name = ''Carol White'', salary = 45000, variant = Plain\<rparr>"
    by code_simp
  have l: "employees_of (state_of (Manager_add_employee 2 5 acme_hire)) 2 = Some [0, 3, 5]"
    by code_simp
  have c: "count_list [0, 3, 5] (5::nat) = 1"
    by simp
  show ?thesis
    using add_then_remove_restores [OF m e l c] l by simp
qed

text \<open>
  Claim C8. \<^verbatim>\<open>x.remove_employee(e)\<close>, for a manager or a company \<open>x\<close> and an employee object
  \<open>e\<close>, always returns. When \<open>e\<close> is not in the list of \<open>x\<close>, the state afterwards is the state
  before with one more message printed, so the list and every object are as they were.
  When \<open>e\<close> is in the list, its first occurrence is the one removed.
\<close>

theorem remove_employee_absent_or_first:
  assumes "employees_of s x = Some rs" and "get_employee s r = Some e"
  shows "returns (remove_employee x r s) \<and>
         (r \<notin> set rs \<longrightarrow>
            state_of (remove_employee x r s) =
              print (last (out (state_of (remove_employee x r s)))) s) \<and>
         (\<forall>xs ys. rs = xs @ r # ys \<and> r \<notin> set xs \<longrightarrow>
            employees_of (state_of (remove_employee x r s)) x = Some (xs @ ys))"
proof -
  obtain m where m: "remove_employee x r s =
      Done (print m (if r \<in> set rs
                     then put x (with_employees (remove1 r rs) (heap s ! x)) s else s))"
    using remove_employee_effect [OF assms(1) get_employee_name_of [OF assms(2)]] by blast
  have "returns (remove_employee x r s)" by (simp add: m)
  moreover have "r \<notin> set rs \<longrightarrow>
      state_of (remove_employee x r s) = print (last (out (state_of (remove_employee x r s)))) s"
    by (simp add: m)
  moreover have "\<forall>xs ys. rs = xs @ r # ys \<and> r \<notin> set xs \<longrightarrow>
      employees_of (state_of (remove_employee x r s)) x = Some (xs @ ys)"
    using assms(1)
    by (auto simp: m employees_of_put_with_employees remove1_append_absent)
  ultimately show ?thesis by blast
qed

theorem remove_employee_absent_or_first_witness:
  "state_of (remove_employee 2 5 acme_hire) = print (Not_a_report ''Carol White'' ''Charlie Brown'') acme_hire \<and>
   state_of (remove_employee 4 5 acme_hire) = print (Not_in_company ''Carol White'' ''Acme Corp'') acme_hire \<and>
   employees_of (state_of (remove_employee 2 3 acme_hire)) 2 = Some [0] \<and>
   employees_of (state_of (remove_employee 4 1 acme_hire)) 4 = Some [0, 2, 3]"
proof -
  have m: "employees_of acme_hire 2 = Some [0, 3]" by code_simp
  have c: "employees_of acme_hire 4 = Some [0, 1, 2, 3]" by code_simp
  have e5: "get_employee acme_hire 5 =
      Some \<lparr>employee_id = 103, name = ''Carol White'', salary = 45000, variant = Plain\<rparr>"
    by code_simp
  have e3: "get_employee acme_hire 3 =
      Some \<lparr>employee_id = 301, name = ''David Miller'', salary = 40000,
            variant = SalesPerson (1 / 10) 0\<rparr>"
    by code_simp
  have e1: "get_employee acme_hire 1 =
      Some \<lparr>employee_id = 102, name = ''Bob Johnson'', salary = 60000, variant = Plain\<rparr>"
    by code_simp
  have l2: "last (out (state_of (remove_employee 2 5 acme_hire))) =
      Not_a_report ''Carol White'' ''Charlie Brown''"
    by code_simp
  have l4: "last (out (state_of (remove_employee 4 5 acme_hire))) =
      Not_in_company ''Carol White'' ''Acme Corp''"
    by code_simp
  have s3: "[0, 3] = [0] @ (3::nat) # [] \<and> 3 \<notin> set [0::nat]" by simp
  have s1: "[0, 1, 2, 3] = [0] @ (1::nat) # [2, 3] \<and> 1 \<notin> set [0::nat]" by simp
  have a: "state_of (remove_employee 2 5 acme_hire) =
      print (Not_a_report ''Carol White'' ''Charlie Brown'') acme_hire"
    using remove_employee_absent_or_first [OF m e5] l2 by simp
  have b: "state_of (remove_employee 4 5 acme_hire) =
      print (Not_in_company ''Carol White'' ''Acme Corp'') acme_hire"
    using remove_employee_absent_or_first [OF c e5] l4 by simp
  have d: "employees_of (state_of (remove_employee 2 3 acme_hire)) 2 = Some ([0] @ [])"
    using remove_employee_absent_or_first [OF m e3] s3 by blast
  have f: "employees_of (state_of (remove_employee 4 1 acme_hire)) 4 = Some ([0] @ [2, 3])"
    using remove_employee_absent_or_first [OF c e1] s1 by blast
  show ?thesis using a b d f by simp
qed

text \<open>
  Claim C9. The list of a manager and the list of a company are separate: adding to or
  removing from the one, with any argument, leaves the other as it was, whatever the two
  lists have in common.
\<close>

theorem lists_are_independent:
  assumes "get_manager s m = Some (mm, d, rs)" and "get_company s c = Some co"
  shows "employees_of (state_of (add_employee m r s)) c = Some (company_employees co) \<and>
         employees_of (state_of (remove_employee m r s)) c = Some (company_employees co) \<and>
         employees_of (state_of (add_employee c r s)) m = Some rs \<and>
         employees_of (state_of (remove_employee c r s)) m = Some rs"
proof -
  have ne: "c \<noteq> m"
    using assms by (auto simp: get_manager_def get_employee_def get_company_def
        split: option.splits obj.splits)
  have m: "employees_of s m = Some rs" by (rule get_manager_employees_of [OF assms(1)])
  have c: "employees_of s c = Some (company_employees co)"
    by (rule get_company_employees_of [OF assms(2)])
  show ?thesis
    using ne m c
      employees_of_cong_lookup [OF lookup_add_employee_other, of c m r s]
      employees_of_cong_lookup [OF lookup_remove_employee_other, of c m r s]
      employees_of_cong_lookup [OF lookup_add_employee_other, of m c r s]
      employees_of_cong_lookup [OF lookup_remove_employee_other, of m c r s]
    by simp
qed

theorem lists_are_independent_witness:
  "employees_of (state_of (add_employee 2 1 acme)) 4 = Some [0, 1, 2, 3] \<and>
   employees_of (state_of (remove_employee 2 0 acme)) 4 = Some [0, 1, 2, 3] \<and>
   employees_of (state_of (add_employee 4 0 acme)) 2 = Some [0, 3] \<and>
   employees_of (state_of (remove_employee 4 3 acme)) 2 = Some [0, 3]"
proof -
  have m: "get_manager acme 2 =
      Some (\<lparr>employee_id = 201, name = ''Charlie Brown'', salary = 80000,
              variant = Manager ''Sales'' [0, 3]\<rparr>, ''Sales'', [0, 3])"
    by code_simp
  have c: "get_company acme 4 =
      Some \<lparr>company_name = ''Acme Corp'', company_employees = [0, 1, 2, 3]\<rparr>"
    by code_simp
  show ?thesis
    using lists_are_independent [OF m c, of 1] lists_are_independent [OF m c, of 0]
      lists_are_independent [OF m c, of 3]
    by simp
qed

section \<open>Queries of a company\<close>




lemma find_by_id_find:
  "map (\<lambda>r. get_employee_id r s) rs = map Inr ids \<Longrightarrow>
   find_by_id s i rs = Inr (find (\<lambda>r. get_employee_id r s = Inr i) rs)"
proof (induction rs arbitrary: ids)
  case Nil
  show ?case by simp
next
  case (Cons r rs)
  then obtain j js where "ids = j # js" and j: "get_employee_id r s = Inr j"
    and js: "map (\<lambda>r. get_employee_id r s) rs = map Inr js"
    by (cases ids) auto
  then show ?case using Cons.IH [OF js] by simp
qed

lemma find_first:
  "rs = xs @ r # ys \<Longrightarrow> P r \<Longrightarrow> \<forall>x\<in>set xs. \<not> P x \<Longrightarrow> find P rs = Some r"
  by (induction xs arbitrary: rs) auto

lemma find_unique:
  "r \<in> set rs \<Longrightarrow> P r \<Longrightarrow> \<forall>x\<in>set rs. P x \<longrightarrow> x = r \<Longrightarrow> find P rs = Some r"
proof (induction rs)
  case Nil
  then show ?case by simp
next
  case (Cons a rs)
  show ?case
  proof (cases "P a")
    case True
    then have "a = r" using Cons.prems(3) by simp
    then show ?thesis using True by simp
  next
    case False
    then have "r \<in> set rs" using Cons.prems(1,2) by auto
    moreover have "\<forall>x\<in>set rs. P x \<longrightarrow> x = r" using Cons.prems(3) by simp
    ultimately have "find P rs = Some r" using Cons.IH Cons.prems(2) by blast
    then show ?thesis using False by simp
  qed
qed

text \<open>
  Claim C6. For a company whose list holds employee objects, with ids \<open>ids\<close> in list order,
  \<^verbatim>\<open>get_employee_by_id(i)\<close> never raises: it returns \<^verbatim>\<open>None\<close> when no id in the list is \<open>i\<close>,
  the first object of the list whose id is \<open>i\<close> when there is one, and hence the only such
  object when there is exactly one.
\<close>

theorem get_employee_by_id_first_match:
  assumes "get_company s c = Some co"
    and "map (\<lambda>r. get_employee_id r s) (company_employees co) = map Inr ids"
  shows "(i \<notin> set ids \<longrightarrow> get_employee_by_id c i s = Inr None) \<and>
         (\<forall>xs r ys. company_employees co = xs @ r # ys \<and> get_employee_id r s = Inr i \<and>
              (\<forall>x\<in>set xs. get_employee_id x s \<noteq> Inr i) \<longrightarrow>
            get_employee_by_id c i s = Inr (Some r)) \<and>
         (\<forall>r. r \<in> set (company_employees co) \<and> get_employee_id r s = Inr i \<and>
              (\<forall>x\<in>set (company_employees co). get_employee_id x s = Inr i \<longrightarrow> x = r) \<longrightarrow>
            get_employee_by_id c i s = Inr (Some r))"
proof -
  let ?P = "\<lambda>r. get_employee_id r s = Inr i"
  have f: "get_employee_by_id c i s = Inr (find ?P (company_employees co))"
    using find_by_id_find [OF assms(2)] assms(1) by (simp add: get_employee_by_id_def)
  have "i \<notin> set ids \<longrightarrow> find ?P (company_employees co) = None"
  proof
    assume i: "i \<notin> set ids"
    have "\<forall>r\<in>set (company_employees co). \<not> ?P r"
    proof
      fix r assume "r \<in> set (company_employees co)"
      then have "get_employee_id r s \<in> set (map (\<lambda>r. get_employee_id r s) (company_employees co))"
        by simp
      then have "get_employee_id r s \<in> Inr ` set ids" by (simp add: assms(2))
      then show "\<not> ?P r" using i by auto
    qed
    then show "find ?P (company_employees co) = None" by (simp add: find_None_iff)
  qed
  moreover have "\<forall>xs r ys. company_employees co = xs @ r # ys \<and> ?P r \<and>
      (\<forall>x\<in>set xs. \<not> ?P x) \<longrightarrow> find ?P (company_employees co) = Some r"
    using find_first [where P = ?P] by blast
  moreover have "\<forall>r. r \<in> set (company_employees co) \<and> ?P r \<and>
      (\<forall>x\<in>set (company_employees co). ?P x \<longrightarrow> x = r) \<longrightarrow>
      find ?P (company_employees co) = Some r"
    using find_unique [where P = ?P] by blast
  ultimately show ?thesis unfolding f by simp
qed

theorem get_employee_by_id_first_match_witness:
  "get_employee_by_id 4 999 acme_twin = Inr None \<and>
   get_employee_by_id 4 102 acme_twin = Inr (Some 1) \<and>
   get_employee_by_id 4 301 acme_twin = Inr (Some 3)"
proof -
  let ?co = "\<lparr>company_name = ''Acme Corp'', company_employees = [0, 1, 2, 3, 5]\<rparr>"
  have c: "get_company acme_twin 4 = Some ?co"
    by code_simp
  have m: "map (\<lambda>r. get_employee_id r acme_twin) (company_employees ?co) =
      map Inr [101, 102, 201, 301, 102]"
    by code_simp
  have n: "(999::int) \<notin> set [101, 102, 201, 301, 102]"
    by simp
  have f: "company_employees ?co = [0] @ 1 # [2, 3, 5] \<and>
      get_employee_id 1 acme_twin = Inr 102 \<and>
      (\<forall>x\<in>set [0]. get_employee_id x acme_twin \<noteq> Inr 102)"
    by code_simp
  have u: "3 \<in> set (company_employees ?co) \<and> get_employee_id 3 acme_twin = Inr 301 \<and>
      (\<forall>x\<in>set (company_employees ?co). get_employee_id x acme_twin = Inr 301 \<longrightarrow> x = 3)"
    by code_simp
  have a: "get_employee_by_id 4 999 acme_twin = Inr None"
    using get_employee_by_id_first_match [OF c m, of 999] n by blast
  have b: "get_employee_by_id 4 102 acme_twin = Inr (Some 1)"
    using get_employee_by_id_first_match [OF c m, of 102] f by blast
  have d: "get_employee_by_id 4 301 acme_twin = Inr (Some 3)"
    using get_employee_by_id_first_match [OF c m, of 301] u by blast
  show ?thesis using a b d by simp
qed



lemma count_list_append [simp]: "count_list (xs @ ys) r = count_list xs r + count_list ys r"
  by (induction xs) auto



section \<open>A manager's raise that includes the reports\<close>


lemma count_list_Cons_eq:
  "count_list (r # rs) x = (if x = r then Suc (count_list rs x) else count_list rs x)"
  by auto






end
